theory Spec2Isabelle
  imports Main "HOL-Library.AList"
begin

section \<open>Python strings\<close>

text \<open>
  A Python \<open>str\<close> is a sequence of Unicode code points, so a character is a natural
  number and a string a list of them. \<open>u\<close> turns a literal of the theory into such a
  string.
\<close>

type_synonym pychar = nat
type_synonym pystr = "pychar list"

definition u :: "string \<Rightarrow> pystr" where
  "u cs = map of_char cs"

text \<open>
  \<open>str.isspace\<close> on one character: the code points that \<open>str.strip()\<close> removes when
  it is called without an argument.
\<close>

definition isspace :: "pychar \<Rightarrow> bool" where
  "isspace c \<longleftrightarrow>
     (0x09 \<le> c \<and> c \<le> 0x0D) \<or> (0x1C \<le> c \<and> c \<le> 0x20) \<or> c = 0x85 \<or> c = 0xA0 \<or>
     c = 0x1680 \<or> (0x2000 \<le> c \<and> c \<le> 0x200A) \<or> c = 0x2028 \<or> c = 0x2029 \<or>
     c = 0x202F \<or> c = 0x205F \<or> c = 0x3000"

definition py_lstrip :: "pystr \<Rightarrow> pystr" where
  "py_lstrip s = dropWhile isspace s"

definition py_rstrip :: "pystr \<Rightarrow> pystr" where
  "py_rstrip s = rev (dropWhile isspace (rev s))"

definition py_strip :: "pystr \<Rightarrow> pystr" where
  "py_strip s = py_rstrip (py_lstrip s)"

definition startswith :: "pystr \<Rightarrow> pystr \<Rightarrow> bool" where
  "startswith s p \<longleftrightarrow> take (length p) s = p"

definition endswith :: "pystr \<Rightarrow> pystr \<Rightarrow> bool" where
  "endswith s p \<longleftrightarrow> length p \<le> length s \<and> drop (length s - length p) s = p"

text \<open>
  \<open>s.split(sep, 1)\<close> and \<open>s.rsplit(sep, 1)\<close> cut \<open>s\<close> at the first, respectively the
  last, occurrence of \<open>sep\<close>; without an occurrence the result is the one-element list
  \<open>[s]\<close>. Both are only called with a constant, non-empty separator.
\<close>

fun cut_first :: "pystr \<Rightarrow> pystr \<Rightarrow> (pystr \<times> pystr) option" where
  "cut_first sep [] = (if sep = [] then Some ([], []) else None)"
| "cut_first sep (c # cs) =
     (if startswith (c # cs) sep then Some ([], drop (length sep) (c # cs))
      else (case cut_first sep cs of
              None \<Rightarrow> None
            | Some (a, b) \<Rightarrow> Some (c # a, b)))"

fun cut_last :: "pystr \<Rightarrow> pystr \<Rightarrow> (pystr \<times> pystr) option" where
  "cut_last sep [] = (if sep = [] then Some ([], []) else None)"
| "cut_last sep (c # cs) =
     (case cut_last sep cs of
        Some (a, b) \<Rightarrow> Some (c # a, b)
      | None \<Rightarrow>
          (if startswith (c # cs) sep then Some ([], drop (length sep) (c # cs))
           else None))"

definition py_split1 :: "pystr \<Rightarrow> pystr \<Rightarrow> pystr list" where
  "py_split1 s sep = (case cut_first sep s of None \<Rightarrow> [s] | Some (a, b) \<Rightarrow> [a, b])"

definition py_rsplit1 :: "pystr \<Rightarrow> pystr \<Rightarrow> pystr list" where
  "py_rsplit1 s sep = (case cut_last sep s of None \<Rightarrow> [s] | Some (a, b) \<Rightarrow> [a, b])"

fun py_join :: "pystr \<Rightarrow> pystr list \<Rightarrow> pystr" where
  "py_join sep [] = []"
| "py_join sep [x] = x"
| "py_join sep (x # y # ys) = x @ sep @ py_join sep (y # ys)"

section \<open>Request model and prompt construction\<close>

record AnalyzeRequest =
  log_text :: pystr
  kernel_version :: pystr
  distro :: pystr
  additional_context :: pystr

text \<open>
  \<open>build_user_prompt\<close>: the log in its delimited block, one part for each optional
  field that is a non-empty string (Python's truth value of a \<open>str\<close>), the closing
  instruction, all joined by a blank line.
\<close>

definition build_user_prompt :: "'a AnalyzeRequest_scheme \<Rightarrow> pystr" where
  "build_user_prompt req =
     (let parts = [u ''<kernel_log>\<newline>'' @ log_text req @ u ''\<newline></kernel_log>''];
          parts = (if kernel_version req \<noteq> []
                   then parts @ [u ''Kernel version (user-provided): '' @ kernel_version req]
                   else parts);
          parts = (if distro req \<noteq> []
                   then parts @ [u ''Distribution: '' @ distro req]
                   else parts);
          parts = (if additional_context req \<noteq> []
                   then parts @ [u ''Additional context from the engineer: '' @ additional_context req]
                   else parts);
          parts = parts @ [u ''\<newline>Analyze this crash and respond with the JSON report.'']
      in py_join (u ''\<newline>\<newline>'') parts)"

section \<open>Parsed documents\<close>

text \<open>
  The values \<open>json.loads\<close> returns: \<open>None\<close>, \<open>bool\<close>, \<open>int\<close> (unbounded), \<open>float\<close>,
  \<open>str\<close>, \<open>list\<close> and \<open>dict\<close> with string keys. A float is kept as the text it was
  read from: floating-point arithmetic is outside this development. A \<open>dict\<close> is its
  list of items, in insertion order.
\<close>

datatype pyval =
    PyNone
  | PyBool bool
  | PyInt int
  | PyFloat pystr
  | PyStr pystr
  | PyList "pyval list"
  | PyDict "(pystr \<times> pyval) list"

section \<open>Exceptions\<close>

text \<open>
  One line of a pydantic \<open>ValidationError\<close>: the location of the offending value (field
  names and list indexes, outermost first) and the kind of the error.
\<close>

datatype loc_item = Field pystr | Index nat

datatype error_type =
    missing | string_type | int_type | int_parsing | int_from_float | finite_number
  | list_type | model_type

type_synonym line_error = "loc_item list \<times> error_type"

text \<open>
  The exceptions of the handler's \<open>try\<close> block. \<open>JSONDecodeError\<close> carries its message,
  \<open>OtherError\<close> stands for every other exception a library call may raise (a provider or
  transport failure of the completion service, for instance) with its message.
\<close>

datatype exn =
    IndexError
  | TypeError
  | JSONDecodeError pystr
  | ValidationError "line_error list"
  | OtherError pystr

text \<open>
  The detail of an \<open>HTTPException\<close> is a fixed text, or an f-string: a fixed prefix
  followed by \<open>str(e)\<close> of the exception caught.
\<close>

datatype detail = Text pystr | Text_then_str pystr exn

record HTTPException =
  status_code :: nat
  detail :: detail

definition py_index :: "'a list \<Rightarrow> nat \<Rightarrow> exn + 'a" where
  "py_index xs i = (if i < length xs then Inr (xs ! i) else Inl IndexError)"

section \<open>Response models\<close>

record RelatedIssue =
  id' :: pystr
  title :: pystr
  url :: pystr

record TraceFrame =
  func :: pystr
  note' :: pystr

record AnalysisReport =
  crash_type :: pystr
  severity :: pystr
  confidence :: int
  root_cause :: pystr
  detailed_analysis :: pystr
  affected_subsystem :: pystr
  probable_trigger :: pystr
  suggested_fixes :: "pystr list"
  related_issues :: "RelatedIssue list"
  annotated_trace :: "TraceFrame list"

text \<open>
  Validation as pydantic does it for these declarations, with its default configuration:
  every field is validated, all errors are collected, a key that is no field is ignored,
  and types are checked in lax mode. The result of a validator is the value or the list
  of its errors.
\<close>

type_synonym 'a validated = "line_error list + 'a"

fun ap :: "('a \<Rightarrow> 'b) validated \<Rightarrow> 'a validated \<Rightarrow> 'b validated" where
  "ap (Inr f) (Inr x) = Inr (f x)"
| "ap (Inr f) (Inl es) = Inl es"
| "ap (Inl es) (Inr x) = Inl es"
| "ap (Inl es) (Inl es') = Inl (es @ es')"

definition at_loc :: "loc_item \<Rightarrow> 'a validated \<Rightarrow> 'a validated" where
  "at_loc l r = (case r of Inl es \<Rightarrow> Inl (map (\<lambda>(p, t). (l # p, t)) es) | Inr x \<Rightarrow> Inr x)"

definition str_validator :: "pyval \<Rightarrow> pystr validated" where
  "str_validator v = (case v of PyStr s \<Rightarrow> Inr s | _ \<Rightarrow> Inl [([], string_type)])"

text \<open>
  An \<open>int\<close> field takes an \<open>int\<close> as it is, whatever its size, and a \<open>bool\<close> as 0 or 1.
  What lax mode makes of a \<open>str\<close> or a \<open>float\<close> is the library's parsing of numbers:
  it is the parameter \<open>lax\<close>, which gives the integer or the kind of the error. Every
  other value is refused.
\<close>

definition int_validator :: "(pyval \<Rightarrow> error_type + int) \<Rightarrow> pyval \<Rightarrow> int validated" where
  "int_validator lax v =
     (case v of
        PyInt i \<Rightarrow> Inr i
      | PyBool b \<Rightarrow> Inr (if b then 1 else 0)
      | PyStr s \<Rightarrow> (case lax v of Inr i \<Rightarrow> Inr i | Inl t \<Rightarrow> Inl [([], t)])
      | PyFloat f \<Rightarrow> (case lax v of Inr i \<Rightarrow> Inr i | Inl t \<Rightarrow> Inl [([], t)])
      | _ \<Rightarrow> Inl [([], int_type)])"

fun items_validator :: "(pyval \<Rightarrow> 'a validated) \<Rightarrow> nat \<Rightarrow> pyval list \<Rightarrow> 'a list validated" where
  "items_validator item i [] = Inr []"
| "items_validator item i (x # xs) =
     ap (ap (Inr (#)) (at_loc (Index i) (item x))) (items_validator item (Suc i) xs)"

definition list_validator :: "(pyval \<Rightarrow> 'a validated) \<Rightarrow> pyval \<Rightarrow> 'a list validated" where
  "list_validator item v =
     (case v of PyList xs \<Rightarrow> items_validator item 0 xs | _ \<Rightarrow> Inl [([], list_type)])"

definition required :: "(pystr \<times> pyval) list \<Rightarrow> pystr \<Rightarrow> (pyval \<Rightarrow> 'a validated) \<Rightarrow> 'a validated" where
  "required d name validator =
     (case map_of d name of
        None \<Rightarrow> Inl [([Field name], missing)]
      | Some v \<Rightarrow> at_loc (Field name) (validator v))"

definition with_default ::
  "(pystr \<times> pyval) list \<Rightarrow> pystr \<Rightarrow> (pyval \<Rightarrow> 'a validated) \<Rightarrow> 'a \<Rightarrow> 'a validated" where
  "with_default d name validator dflt =
     (case map_of d name of
        None \<Rightarrow> Inr dflt
      | Some v \<Rightarrow> at_loc (Field name) (validator v))"

definition RelatedIssue_validator :: "pyval \<Rightarrow> RelatedIssue validated" where
  "RelatedIssue_validator v =
     (case v of
        PyDict d \<Rightarrow>
          ap (ap (ap (Inr (\<lambda>a b c. \<lparr>id' = a, title = b, url = c\<rparr>))
            (required d (u ''id'') str_validator))
            (required d (u ''title'') str_validator))
            (with_default d (u ''url'') str_validator (u ''#''))
      | _ \<Rightarrow> Inl [([], model_type)])"

definition TraceFrame_validator :: "pyval \<Rightarrow> TraceFrame validated" where
  "TraceFrame_validator v =
     (case v of
        PyDict d \<Rightarrow>
          ap (ap (Inr (\<lambda>a b. \<lparr>func = a, note' = b\<rparr>))
            (required d (u ''func'') str_validator))
            (required d (u ''note'') str_validator)
      | _ \<Rightarrow> Inl [([], model_type)])"

text \<open>The fields the class \<open>AnalysisReport\<close> declares, in their order.\<close>

definition AnalysisReport_fields :: "pystr list" where
  "AnalysisReport_fields =
     [u ''crash_type'', u ''severity'', u ''confidence'', u ''root_cause'',
      u ''detailed_analysis'', u ''affected_subsystem'', u ''probable_trigger'',
      u ''suggested_fixes'', u ''related_issues'', u ''annotated_trace'']"

definition AnalysisReport_validator ::
  "(pyval \<Rightarrow> error_type + int) \<Rightarrow> (pystr \<times> pyval) list \<Rightarrow> AnalysisReport validated" where
  "AnalysisReport_validator lax d =
     ap (ap (ap (ap (ap (ap (ap (ap (ap (ap
       (Inr (\<lambda>a b c d e f g h i j.
          \<lparr>crash_type = a, severity = b, confidence = c, root_cause = d,
           detailed_analysis = e, affected_subsystem = f, probable_trigger = g,
           suggested_fixes = h, related_issues = i, annotated_trace = j\<rparr>))
       (required d (u ''crash_type'') str_validator))
       (required d (u ''severity'') str_validator))
       (required d (u ''confidence'') (int_validator lax)))
       (required d (u ''root_cause'') str_validator))
       (required d (u ''detailed_analysis'') str_validator))
       (required d (u ''affected_subsystem'') str_validator))
       (required d (u ''probable_trigger'') str_validator))
       (required d (u ''suggested_fixes'') (list_validator str_validator)))
       (required d (u ''related_issues'') (list_validator RelatedIssue_validator)))
       (required d (u ''annotated_trace'') (list_validator TraceFrame_validator))"

text \<open>
  \<open>AnalysisReport(**report)\<close>: unpacking with \<open>**\<close> raises \<open>TypeError\<close> unless the
  document is a \<open>dict\<close>; validation raises \<open>ValidationError\<close> with the collected lines.
\<close>

definition AnalysisReport_init :: "(pyval \<Rightarrow> error_type + int) \<Rightarrow> pyval \<Rightarrow> exn + AnalysisReport" where
  "AnalysisReport_init lax report =
     (case report of
        PyDict d \<Rightarrow>
          (case AnalysisReport_validator lax d of
             Inl es \<Rightarrow> Inl (ValidationError es)
           | Inr r \<Rightarrow> Inr r)
      | _ \<Rightarrow> Inl TypeError)"

section \<open>The endpoint\<close>

text \<open>
  What lies outside the repository is a parameter of the handler: the completion
  service (\<open>client.messages.create\<close>, which returns the texts of the reply's content
  blocks or raises), \<open>json.loads\<close>, and pydantic's lax parsing of numbers.
\<close>

record create_args =
  model :: pystr
  max_tokens :: nat
  system :: pystr
  messages :: "(pystr \<times> pystr) list"

record library =
  messages_create :: "create_args \<Rightarrow> exn + pystr list"
  json_loads :: "pystr \<Rightarrow> exn + pyval"
  lax_int :: "pyval \<Rightarrow> error_type + int"

text \<open>
  Lines 129 to 136: trim the reply, drop the first line when the text starts with a
  fence, drop what follows the last fence when the text ends with one, trim again.
  \<open>split(..., 1)[1]\<close> raises \<open>IndexError\<close> when the text has no newline.
\<close>

definition fence :: pystr where
  "fence = [0x60, 0x60, 0x60]"

definition strip_fences :: "pystr \<Rightarrow> exn + pystr" where
  "strip_fences text =
     (let raw = py_strip text in
      case (if startswith raw fence then py_index (py_split1 raw (u ''\<newline>'')) 1 else Inr raw) of
        Inl e \<Rightarrow> Inl e
      | Inr raw \<Rightarrow>
          (case (if endswith raw fence then py_index (py_rsplit1 raw fence) 0 else Inr raw) of
             Inl e \<Rightarrow> Inl e
           | Inr raw \<Rightarrow> Inr (py_strip raw)))"

text \<open>The body of the \<open>try\<close> block, after the arguments of the call are built.\<close>

definition try_block :: "library \<Rightarrow> create_args \<Rightarrow> exn + AnalysisReport" where
  "try_block lib args =
     (case messages_create lib args of
        Inl e \<Rightarrow> Inl e
      | Inr content \<Rightarrow>
          (case py_index content 0 of
             Inl e \<Rightarrow> Inl e
           | Inr text \<Rightarrow>
               (case strip_fences text of
                  Inl e \<Rightarrow> Inl e
                | Inr raw \<Rightarrow>
                    (case json_loads lib raw of
                       Inl e \<Rightarrow> Inl e
                     | Inr report \<Rightarrow> AnalysisReport_init (lax_int lib) report))))"

text \<open>The two \<open>except\<close> clauses, in their order.\<close>

definition except :: "exn \<Rightarrow> HTTPException" where
  "except e =
     (case e of
        JSONDecodeError msg \<Rightarrow>
          \<lparr>status_code = 500, detail = Text_then_str (u ''LLM returned invalid JSON: '') e\<rparr>
      | _ \<Rightarrow> \<lparr>status_code = 500, detail = Text_then_str (u ''Analysis failed: '') e\<rparr>)"

text \<open>The keyword arguments of \<open>client.messages.create\<close>, lines 121 to 126.\<close>

definition call_args :: "pystr \<Rightarrow> 'a AnalyzeRequest_scheme \<Rightarrow> create_args" where
  "call_args SYSTEM_PROMPT req =
     \<lparr>model = u ''claude-sonnet-4-20250514'', max_tokens = 4096, system = SYSTEM_PROMPT,
      messages = [(u ''user'', build_user_prompt req)]\<rparr>"

text \<open>
  \<open>analyze_crash\<close> returns the report or the \<open>HTTPException\<close> raised, and the list of the
  calls it made to the completion service. The constant \<open>SYSTEM_PROMPT\<close> is a parameter.
\<close>

definition analyze_crash ::
  "library \<Rightarrow> pystr \<Rightarrow> 'a AnalyzeRequest_scheme \<Rightarrow> (HTTPException + AnalysisReport) \<times> create_args list" where
  "analyze_crash lib SYSTEM_PROMPT req =
     (if py_strip (log_text req) = [] then
        (Inl \<lparr>status_code = 400, detail = Text (u ''log_text cannot be empty'')\<rparr>, [])
      else
        (case try_block lib (call_args SYSTEM_PROMPT req) of
           Inl e \<Rightarrow> Inl (except e)
         | Inr report \<Rightarrow> Inr report,
         [call_args SYSTEM_PROMPT req]))"

section \<open>Properties of prompt construction\<close>

text \<open>
  C7. The rendered user message is a function of the four request fields alone (two
  requests that agree on them render the same text); it starts with the delimited
  block holding \<open>log_text\<close> unchanged and in full; after the block come exactly the
  parts (label and value) of the optional fields that are not empty, each after a blank
  line, and the closing instruction: an empty optional field contributes nothing, not
  even an empty line.
\<close>

theorem build_user_prompt_deterministic_verbatim:
  fixes req :: "'a AnalyzeRequest_scheme" and req' :: "'b AnalyzeRequest_scheme"
  assumes "log_text req = log_text req'" and "kernel_version req = kernel_version req'"
    and "distro req = distro req'" and "additional_context req = additional_context req'"
  shows "build_user_prompt req' = build_user_prompt req \<and>
         build_user_prompt req =
           u ''<kernel_log>\<newline>'' @ log_text req @ u ''\<newline></kernel_log>'' @
           concat (map (\<lambda>(label, v). u ''\<newline>\<newline>'' @ label @ v) (filter (\<lambda>(label, v). v \<noteq> [])
              [(u ''Kernel version (user-provided): '', kernel_version req),
               (u ''Distribution: '', distro req),
               (u ''Additional context from the engineer: '', additional_context req)])) @
           u ''\<newline>\<newline>\<newline>Analyze this crash and respond with the JSON report.''"
  using assms
  by (simp add: build_user_prompt_def Let_def u_def)

theorem build_user_prompt_witness:
  "build_user_prompt
     \<lparr>log_text = u ''kernel BUG at mm/slab.c:123'', kernel_version = u ''6.1'',
      distro = [], additional_context = []\<rparr> =
   u ''<kernel_log>\<newline>kernel BUG at mm/slab.c:123\<newline></kernel_log>\<newline>\<newline>Kernel version (user-provided): 6.1\<newline>\<newline>\<newline>Analyze this crash and respond with the JSON report.''"
  using build_user_prompt_deterministic_verbatim
    [of "\<lparr>log_text = u ''kernel BUG at mm/slab.c:123'', kernel_version = u ''6.1'',
          distro = [], additional_context = []\<rparr>"
        "\<lparr>log_text = u ''kernel BUG at mm/slab.c:123'', kernel_version = u ''6.1'',
          distro = [], additional_context = []\<rparr>"]
  by (simp add: u_def)

section \<open>Input validation and error classification\<close>

lemma py_strip_blank: "list_all isspace s \<Longrightarrow> py_strip s = []"
proof -
  assume "list_all isspace s"
  then have d: "dropWhile isspace s = []"
    by (simp add: list_all_iff)
  show ?thesis
    unfolding py_strip_def py_lstrip_def py_rstrip_def d by simp
qed

lemma cut_first_no_newline: "nl \<notin> set s \<Longrightarrow> cut_first [nl] s = None"
  by (induction s) (auto simp: startswith_def)

text \<open>
  C2. A request whose \<open>log_text\<close> is empty or holds only whitespace is rejected with
  status 400 and the detail "log_text cannot be empty", whatever the libraries would
  do, and the completion service is not called: the list of calls is empty.
\<close>

theorem analyze_crash_blank_log_rejected:
  assumes "list_all isspace (log_text req)"
  shows "analyze_crash lib SYSTEM_PROMPT req =
           (Inl \<lparr>status_code = 400, detail = Text (u ''log_text cannot be empty'')\<rparr>, [])"
  using assms by (simp add: analyze_crash_def py_strip_blank)

theorem analyze_crash_blank_log_witness:
  "list_all isspace (u ''   '') \<and>
   analyze_crash
     \<lparr>messages_create = (\<lambda>args. Inr [u ''{}'']), json_loads = (\<lambda>s. Inr (PyDict [])),
      lax_int = (\<lambda>v. Inl int_parsing)\<rparr>
     (u ''You are a senior Linux kernel engineer'')
     \<lparr>log_text = u ''   '', kernel_version = u ''6.1'', distro = [], additional_context = []\<rparr> =
     (Inl \<lparr>status_code = 400, detail = Text (u ''log_text cannot be empty'')\<rparr>, [])"
proof -
  have h: "list_all isspace (u ''   '')" by (simp add: u_def isspace_def)
  show ?thesis
    using h analyze_crash_blank_log_rejected
      [of "\<lparr>log_text = u ''   '', kernel_version = u ''6.1'', distro = [],
            additional_context = []\<rparr>"]
    by simp
qed

text \<open>
  C9. When the reply, trimmed, starts with a fence and holds no newline, the clean-up
  step raises \<open>IndexError\<close> (\<open>split\<close> returns one part and part 1 is read); the request
  then fails with status 500 under "Analysis failed", not under "LLM returned invalid
  JSON", and \<open>json.loads\<close> is never reached.
\<close>

theorem strip_fences_no_newline_raises:
  assumes "startswith (py_strip text) fence" and "0x0A \<notin> set (py_strip text)"
    and "py_strip (log_text req) \<noteq> []"
    and "messages_create lib (call_args SYSTEM_PROMPT req) = Inr (text # rest)"
  shows "strip_fences text = Inl IndexError \<and>
         analyze_crash lib SYSTEM_PROMPT req =
           (Inl \<lparr>status_code = 500, detail = Text_then_str (u ''Analysis failed: '') IndexError\<rparr>,
            [call_args SYSTEM_PROMPT req])"
proof -
  have s: "strip_fences text = Inl IndexError"
    using assms(1,2)
    by (simp add: strip_fences_def Let_def py_split1_def py_index_def u_def cut_first_no_newline)
  show ?thesis
    using s assms(3,4)
    by (simp add: analyze_crash_def try_block_def py_index_def except_def)
qed

theorem strip_fences_no_newline_witness:
  "strip_fences fence = Inl IndexError \<and>
   analyze_crash
     \<lparr>messages_create = (\<lambda>args. Inr [fence]), json_loads = (\<lambda>s. Inr (PyDict [])),
      lax_int = (\<lambda>v. Inl int_parsing)\<rparr>
     (u ''You are a senior Linux kernel engineer'')
     \<lparr>log_text = u ''BUG'', kernel_version = [], distro = [], additional_context = []\<rparr> =
     (Inl \<lparr>status_code = 500, detail = Text_then_str (u ''Analysis failed: '') IndexError\<rparr>,
      [call_args (u ''You are a senior Linux kernel engineer'')
         \<lparr>log_text = u ''BUG'', kernel_version = [], distro = [], additional_context = []\<rparr>])"
proof -
  have s: "py_strip fence = fence"
    by (simp add: py_strip_def py_lstrip_def py_rstrip_def fence_def isspace_def)
  have l: "py_strip (u ''BUG'') \<noteq> []"
    by (simp add: py_strip_def py_lstrip_def py_rstrip_def u_def isspace_def)
  show ?thesis
    using strip_fences_no_newline_raises
      [of fence
          "\<lparr>log_text = u ''BUG'', kernel_version = [], distro = [], additional_context = []\<rparr>"
          "\<lparr>messages_create = (\<lambda>args. Inr [fence]), json_loads = (\<lambda>s. Inr (PyDict [])),
            lax_int = (\<lambda>v. Inl int_parsing)\<rparr>"
          "u ''You are a senior Linux kernel engineer''" "[]"]
      s l
    by (simp add: startswith_def fence_def)
qed





section \<open>The clean-up of the reply\<close>

lemma py_strip_append_blank: "list_all isspace p \<Longrightarrow> py_strip (s @ p) = py_strip s"
proof (cases "list_all isspace s")
  case True
  assume "list_all isspace p"
  with True have "list_all isspace (s @ p)" by simp
  then show ?thesis using True by (simp add: py_strip_blank)
next
  case False
  assume p: "list_all isspace p"
  from False obtain c where "c \<in> set s" and "\<not> isspace c"
    by (auto simp: list_all_iff)
  then have "dropWhile isspace (s @ p) = dropWhile isspace s @ p"
    by (rule dropWhile_append1)
  moreover have "dropWhile isspace (rev p @ rev (dropWhile isspace s)) =
      dropWhile isspace (rev (dropWhile isspace s))"
  proof (rule dropWhile_append2)
    fix x
    assume "x \<in> set (rev p)"
    with p show "isspace x" by (simp add: list_all_iff)
  qed
  ultimately show ?thesis
    by (simp add: py_strip_def py_lstrip_def py_rstrip_def)
qed

lemma py_strip_trimmed:
  assumes "x \<noteq> []" and "\<not> isspace (hd x)" and "\<not> isspace (last x)"
  shows "py_strip x = x"
proof -
  have a: "dropWhile isspace x = x"
    using assms(1,2) by (cases x) simp_all
  have b: "dropWhile isspace (rev x) = rev x"
    using assms(1,3) by (cases "rev x") (simp_all add: last_rev [symmetric] hd_rev)
  show ?thesis
    by (simp add: py_strip_def py_lstrip_def py_rstrip_def a b)
qed

lemma py_strip_padded:
  assumes "list_all isspace p1" and "list_all isspace p2"
    and "x \<noteq> []" and "\<not> isspace (hd x)" and "\<not> isspace (last x)"
  shows "py_strip (p1 @ x @ p2) = x"
proof -
  have "dropWhile isspace (p1 @ x @ p2) = dropWhile isspace (x @ p2)"
    using assms(1) by (simp add: list_all_iff dropWhile_append2)
  also have "\<dots> = x @ p2"
    using assms(3,4) by (cases x) simp_all
  finally have "py_strip (p1 @ x @ p2) = py_strip (x @ p2)"
    using assms(3,4) by (cases x) (simp_all add: py_strip_def py_lstrip_def)
  then show ?thesis
    using assms by (simp add: py_strip_append_blank py_strip_trimmed)
qed

lemma py_strip_ends:
  assumes "py_strip s \<noteq> []"
  shows "\<not> isspace (hd (py_strip s)) \<and> \<not> isspace (last (py_strip s))"
proof -
  define t where "t = dropWhile isspace s"
  define r where "r = dropWhile isspace (rev t)"
  have ps: "py_strip s = rev r"
    by (simp add: py_strip_def py_lstrip_def py_rstrip_def t_def r_def)
  with assms have rne: "r \<noteq> []" by simp
  then have tne: "t \<noteq> []" by (auto simp: r_def)
  have ht: "\<not> isspace (hd t)"
    using tne unfolding t_def by (rule hd_dropWhile)
  have hr: "\<not> isspace (hd r)"
    using rne unfolding r_def by (rule hd_dropWhile)
  have "rev t = takeWhile isspace (rev t) @ r"
    by (simp add: r_def)
  then have "last (rev t) = last r"
    using rne by (metis last_appendR)
  then have "last r = hd t"
    using tne by (simp add: last_rev)
  with ht hr rne show ?thesis
    by (simp add: ps hd_rev last_rev)
qed

lemma py_strip_idem: "py_strip (py_strip s) = py_strip s"
proof (cases "py_strip s = []")
  case True
  have "py_strip [] = []" by (simp add: py_strip_def py_lstrip_def py_rstrip_def)
  with True show ?thesis by simp
next
  case False
  then show ?thesis
    using py_strip_ends [OF False] by (simp add: py_strip_trimmed)
qed

lemma startswith_prefix: "startswith (p @ s) p"
  by (simp add: startswith_def)

lemma endswith_suffix: "endswith (s @ p) p"
  by (simp add: endswith_def)

lemma cut_first_newline: "nl \<notin> set pre \<Longrightarrow> cut_first [nl] (pre @ nl # post) = Some (pre, post)"
  by (induction pre) (auto simp: startswith_def)

lemma cut_last_short: "length s < length sep \<Longrightarrow> cut_last sep s = None"
proof (induction s)
  case Nil
  then show ?case by auto
next
  case (Cons c cs)
  then have "cut_last sep cs = None" by simp
  moreover have "\<not> startswith (c # cs) sep"
  proof
    assume "startswith (c # cs) sep"
    then have "length (take (length sep) (c # cs)) = length sep"
      unfolding startswith_def by simp
    with Cons.prems show False by simp
  qed
  ultimately show ?case by simp
qed

lemma cut_last_suffix: "sep \<noteq> [] \<Longrightarrow> cut_last sep (xs @ sep) = Some (xs, [])"
proof (induction xs)
  case Nil
  then obtain c cs where s: "sep = c # cs" by (cases sep) auto
  have "cut_last (c # cs) cs = None"
    by (rule cut_last_short) simp
  then have "cut_last (c # cs) (c # cs) = Some ([], [])"
    by (simp add: startswith_def)
  then show ?case by (simp add: s)
next
  case (Cons a xs)
  then show ?case by simp
qed

lemma fence_not_space: "\<not> isspace 0x60"
  by (simp add: isspace_def)

lemma strip_fences_plain:
  assumes "py_strip r = r" and "\<not> startswith r fence" and "\<not> endswith r fence"
  shows "strip_fences r = Inr r"
  using assms by (simp add: strip_fences_def Let_def)

lemma strip_fences_trimmed:
  assumes "strip_fences text = Inr y"
  shows "py_strip y = y"
  using assms
  by (auto simp: strip_fences_def Let_def py_strip_idem split: if_splits sum.splits)

lemma strip_fences_wrapped:
  assumes "list_all isspace p1" and "list_all isspace p2" and "0x0A \<notin> set tag"
  shows "strip_fences (p1 @ fence @ tag @ [0x0A] @ inner @ fence @ p2) = Inr (py_strip inner)"
proof -
  define x where "x = fence @ tag @ [0x0A] @ inner @ fence"
  have "x \<noteq> []" and "\<not> isspace (hd x)" and "\<not> isspace (last x)"
    by (simp_all add: x_def fence_def isspace_def)
  with assms(1,2) have "py_strip (p1 @ x @ p2) = x"
    by (rule py_strip_padded)
  then have raw: "py_strip (p1 @ fence @ tag @ [0x0A] @ inner @ fence @ p2) = x"
    by (simp add: x_def)
  have sw: "startswith x fence"
    by (simp add: x_def startswith_def)
  have "0x0A \<notin> set (fence @ tag)"
    using assms(3) by (simp add: fence_def)
  then have "cut_first [0x0A] ((fence @ tag) @ 0x0A # (inner @ fence)) = Some (fence @ tag, inner @ fence)"
    by (rule cut_first_newline)
  then have cf: "cut_first (u ''\<newline>'') x = Some (fence @ tag, inner @ fence)"
    by (simp add: x_def u_def)
  have cl: "cut_last fence (inner @ fence) = Some (inner, [])"
    by (rule cut_last_suffix) (simp add: fence_def)
  show ?thesis
    unfolding strip_fences_def Let_def raw
    by (simp add: sw cf cl py_split1_def py_rsplit1_def py_index_def endswith_suffix)
qed

text \<open>
  C4, as amended. The step is not idempotent: on the reply x followed by two fences it
  removes the last fence only, and on that result it removes the other one.
\<close>

theorem strip_fences_not_idempotent:
  "strip_fences (u ''x'' @ fence @ fence) = Inr (u ''x'' @ fence) \<and>
   strip_fences (u ''x'' @ fence) = Inr (u ''x'') \<and>
   u ''x'' @ fence \<noteq> u ''x''"
  by (simp add: strip_fences_def Let_def py_strip_def py_lstrip_def py_rstrip_def u_def
      isspace_def startswith_def endswith_def fence_def py_rsplit1_def py_index_def)

text \<open>
  C4. The step is conservative: a trimmed reply that neither starts nor ends with a
  fence (in particular one that contains no fence) is returned unchanged. Applying the
  step to its own output changes nothing whenever that output neither starts nor ends
  with a fence. A reply wrapped in one fence pair, that is an opening fence, a first
  line \<open>tag\<close> without a newline (the language tag, possibly empty), a newline, the
  content \<open>inner\<close> and a closing fence, with any whitespace around it, is reduced to
  \<open>inner\<close> trimmed of its surrounding whitespace, whatever \<open>inner\<close> contains.
\<close>

theorem strip_fences_conservative:
  "(py_strip r = r \<and> \<not> startswith r fence \<and> \<not> endswith r fence \<longrightarrow>
      strip_fences r = Inr r) \<and>
   (strip_fences text = Inr y \<and> \<not> startswith y fence \<and> \<not> endswith y fence \<longrightarrow>
      strip_fences y = Inr y) \<and>
   (list_all isspace p1 \<and> list_all isspace p2 \<and> 0x0A \<notin> set tag \<longrightarrow>
      strip_fences (p1 @ fence @ tag @ [0x0A] @ inner @ fence @ p2) = Inr (py_strip inner))"
proof (intro conjI impI)
  assume "py_strip r = r \<and> \<not> startswith r fence \<and> \<not> endswith r fence"
  then show "strip_fences r = Inr r"
    by (simp add: strip_fences_plain)
next
  assume a: "strip_fences text = Inr y \<and> \<not> startswith y fence \<and> \<not> endswith y fence"
  then have "strip_fences text = Inr y"
    by simp
  then have "py_strip y = y"
    by (rule strip_fences_trimmed)
  with a show "strip_fences y = Inr y"
    by (simp add: strip_fences_plain)
next
  assume "list_all isspace p1 \<and> list_all isspace p2 \<and> 0x0A \<notin> set tag"
  then show "strip_fences (p1 @ fence @ tag @ [0x0A] @ inner @ fence @ p2) = Inr (py_strip inner)"
    using strip_fences_wrapped [of p1 p2 tag inner] by simp
qed

theorem strip_fences_conservative_witness:
  "strip_fences (u ''{}'') = Inr (u ''{}'') \<and>
   strip_fences (u '' '' @ fence @ u ''json'' @ [0x0A] @ u ''{}\<newline>'' @ fence @ u ''\<newline>'') =
     Inr (u ''{}'')"
proof -
  have s: "py_strip (u ''{}'') = u ''{}''" "py_strip (u ''{}\<newline>'') = u ''{}''"
    by (simp_all add: py_strip_def py_lstrip_def py_rstrip_def u_def isspace_def)
  have f: "\<not> startswith (u ''{}'') fence" "\<not> endswith (u ''{}'') fence"
    by (simp_all add: startswith_def endswith_def fence_def u_def)
  have p: "list_all isspace (u '' '')" "list_all isspace (u ''\<newline>'')" "0x0A \<notin> set (u ''json'')"
    by (simp_all add: u_def isspace_def)
  show ?thesis
    using strip_fences_conservative
      [of "u ''{}''" "u '' '' @ fence @ u ''json'' @ [0x0A] @ u ''{}\<newline>'' @ fence @ u ''\<newline>''"
          "u ''{}''" "u '' ''" "u ''\<newline>''" "u ''json''" "u ''{}\<newline>''"]
      s f p
    by simp
qed

section \<open>Validation of the report\<close>

lemma names_distinct: "distinct AnalysisReport_fields"
  by (simp add: AnalysisReport_fields_def u_def)

lemma ap_Inr_iff: "ap f x = Inr r \<longleftrightarrow> (\<exists>g y. f = Inr g \<and> x = Inr y \<and> r = g y)"
  by (cases f; cases x) auto

lemma at_loc_Inr_iff: "at_loc l x = Inr y \<longleftrightarrow> x = Inr y"
  by (cases x) (simp_all add: at_loc_def)

lemma AnalysisReport_validator_Inr_iff:
  "AnalysisReport_validator lax d = Inr r \<longleftrightarrow>
     required d (u ''crash_type'') str_validator = Inr (crash_type r) \<and>
     required d (u ''severity'') str_validator = Inr (severity r) \<and>
     required d (u ''confidence'') (int_validator lax) = Inr (confidence r) \<and>
     required d (u ''root_cause'') str_validator = Inr (root_cause r) \<and>
     required d (u ''detailed_analysis'') str_validator = Inr (detailed_analysis r) \<and>
     required d (u ''affected_subsystem'') str_validator = Inr (affected_subsystem r) \<and>
     required d (u ''probable_trigger'') str_validator = Inr (probable_trigger r) \<and>
     required d (u ''suggested_fixes'') (list_validator str_validator) = Inr (suggested_fixes r) \<and>
     required d (u ''related_issues'') (list_validator RelatedIssue_validator) = Inr (related_issues r) \<and>
     required d (u ''annotated_trace'') (list_validator TraceFrame_validator) = Inr (annotated_trace r)"
  by (cases r) (auto simp: AnalysisReport_validator_def ap_Inr_iff)

lemma required_Inr_iff:
  "required d name f = Inr y \<longleftrightarrow> (\<exists>v. map_of d name = Some v \<and> f v = Inr y)"
  by (cases "map_of d name") (simp_all add: required_def at_loc_Inr_iff)

lemma AnalysisReport_validator_cong:
  assumes "\<forall>k\<in>set AnalysisReport_fields. map_of d' k = map_of d k"
  shows "AnalysisReport_validator lax d' = AnalysisReport_validator lax d"
  using assms by (simp add: AnalysisReport_validator_def required_def AnalysisReport_fields_def)

lemma map_of_filter_keys:
  "map_of (filter (\<lambda>(k, v). k \<in> S) d) k = (if k \<in> S then map_of d k else None)"
  by (induction d) auto

lemma errors_ap:
  "(case ap f x of Inl es \<Rightarrow> set es | Inr y \<Rightarrow> {}) =
   (case f of Inl es \<Rightarrow> set es | Inr g \<Rightarrow> {}) \<union> (case x of Inl es \<Rightarrow> set es | Inr y \<Rightarrow> {})"
  by (cases f; cases x) auto

lemma errors_Inl:
  "e \<in> (case x of Inl es \<Rightarrow> set es | Inr y \<Rightarrow> {}) \<Longrightarrow> \<exists>es. x = Inl es \<and> e \<in> set es"
  by (cases x) auto

lemma required_missing:
  "map_of d name = None \<Longrightarrow> required d name f = Inl [([Field name], missing)]"
  by (simp add: required_def)

lemma missing_reported:
  assumes "name \<in> set AnalysisReport_fields" and "map_of d name = None"
  shows "\<exists>es. AnalysisReport_validator lax d = Inl es \<and> ([Field name], missing) \<in> set es"
proof (rule errors_Inl)
  show "([Field name], missing) \<in>
      (case AnalysisReport_validator lax d of Inl es \<Rightarrow> set es | Inr y \<Rightarrow> {})"
    using assms
    unfolding AnalysisReport_validator_def errors_ap AnalysisReport_fields_def
    by (auto simp: required_missing)
qed

lemma AnalysisReport_init_Inr_iff:
  "AnalysisReport_init lax (PyDict d) = Inr r \<longleftrightarrow> AnalysisReport_validator lax d = Inr r"
  by (simp add: AnalysisReport_init_def split: sum.splits)

lemma required_update_same:
  "required (AList.update k v d) k f = at_loc (Field k) (f v)"
  by (simp add: required_def update_conv')

lemma required_update_other:
  "name \<noteq> k \<Longrightarrow> required (AList.update k v d) name f = required d name f"
  by (simp add: required_def update_conv')

lemma not_startswith_fence: "hd s \<noteq> 0x60 \<Longrightarrow> \<not> startswith s fence"
  by (cases s) (auto simp: startswith_def fence_def)

lemma not_endswith_fence:
  assumes "last s \<noteq> 0x60"
  shows "\<not> endswith s fence"
proof
  assume e: "endswith s fence"
  then have l: "length fence \<le> length s" and d: "drop (length s - length fence) s = fence"
    by (simp_all add: endswith_def)
  from l have "last (drop (length s - length fence) s) = last s"
    by (intro last_drop) (simp add: fence_def)
  with d assms show False
    by (simp add: fence_def)
qed

lemma strip_fences_unfenced:
  assumes "s \<noteq> []" and "\<not> isspace (hd s)" and "\<not> isspace (last s)"
    and "hd s \<noteq> 0x60" and "last s \<noteq> 0x60"
  shows "strip_fences s = Inr s"
  using assms
  by (simp add: strip_fences_def Let_def py_strip_trimmed not_startswith_fence not_endswith_fence)

text \<open>
  C6. When the parsed document lacks one of the fields the class declares (none of
  them has a default), the construction of the report raises \<open>ValidationError\<close>, and
  the error names the field: it holds a line of kind \<open>missing\<close> at that field. No report
  is built, with a default or in part: the request fails with status 500, and the
  detail is "Analysis failed: " followed by the text of that error.
\<close>

theorem missing_field_rejected:
  assumes "name \<in> set AnalysisReport_fields" and "map_of d name = None"
    and "py_strip (log_text req) \<noteq> []"
    and "messages_create lib (call_args SYSTEM_PROMPT req) = Inr (text # rest)"
    and "strip_fences text = Inr raw"
    and "json_loads lib raw = Inr (PyDict d)"
  shows "\<exists>es. ([Field name], missing) \<in> set es \<and>
           AnalysisReport_init (lax_int lib) (PyDict d) = Inl (ValidationError es) \<and>
           analyze_crash lib SYSTEM_PROMPT req =
             (Inl \<lparr>status_code = 500,
                   detail = Text_then_str (u ''Analysis failed: '') (ValidationError es)\<rparr>,
              [call_args SYSTEM_PROMPT req])"
proof -
  from assms(1,2) obtain es
    where es: "AnalysisReport_validator (lax_int lib) d = Inl es" "([Field name], missing) \<in> set es"
    using missing_reported by blast
  then have i: "AnalysisReport_init (lax_int lib) (PyDict d) = Inl (ValidationError es)"
    by (simp add: AnalysisReport_init_def)
  with assms(3-6) have "analyze_crash lib SYSTEM_PROMPT req =
      (Inl \<lparr>status_code = 500,
            detail = Text_then_str (u ''Analysis failed: '') (ValidationError es)\<rparr>,
       [call_args SYSTEM_PROMPT req])"
    by (simp add: analyze_crash_def try_block_def py_index_def except_def)
  with es(2) i show ?thesis
    by blast
qed

theorem missing_field_witness:
  \<open>analyze_crash
     \<lparr>messages_create = (\<lambda>args. Inr [u ''{"crash_type": "Oops", "severity": "high", "root_cause": "r", "detailed_analysis": "d", "affected_subsystem": "mm", "probable_trigger": "t", "suggested_fixes": [], "related_issues": [], "annotated_trace": []}'']),
      json_loads = (\<lambda>s. if s = u ''{"crash_type": "Oops", "severity": "high", "root_cause": "r", "detailed_analysis": "d", "affected_subsystem": "mm", "probable_trigger": "t", "suggested_fixes": [], "related_issues": [], "annotated_trace": []}''
          then Inr (PyDict
            [(u ''crash_type'', PyStr (u ''Oops'')), (u ''severity'', PyStr (u ''high'')),
             (u ''root_cause'', PyStr (u ''r'')), (u ''detailed_analysis'', PyStr (u ''d'')),
             (u ''affected_subsystem'', PyStr (u ''mm'')), (u ''probable_trigger'', PyStr (u ''t'')),
             (u ''suggested_fixes'', PyList []), (u ''related_issues'', PyList []),
             (u ''annotated_trace'', PyList [])])
          else Inl (JSONDecodeError (u ''Expecting value: line 1 column 1 (char 0)''))),
      lax_int = (\<lambda>v. Inl int_parsing)\<rparr>
     (u ''You are a senior Linux kernel engineer'')
     \<lparr>log_text = u ''BUG'', kernel_version = [], distro = [], additional_context = []\<rparr> =
   (Inl \<lparr>status_code = 500,
         detail = Text_then_str (u ''Analysis failed: '')
           (ValidationError [([Field (u ''confidence'')], missing)])\<rparr>,
    [call_args (u ''You are a senior Linux kernel engineer'')
       \<lparr>log_text = u ''BUG'', kernel_version = [], distro = [], additional_context = []\<rparr>])\<close>
proof -
  define reply where \<open>reply = u ''{"crash_type": "Oops", "severity": "high", "root_cause": "r", "detailed_analysis": "d", "affected_subsystem": "mm", "probable_trigger": "t", "suggested_fixes": [], "related_issues": [], "annotated_trace": []}''\<close>
  define d where "d =
      [(u ''crash_type'', PyStr (u ''Oops'')), (u ''severity'', PyStr (u ''high'')),
       (u ''root_cause'', PyStr (u ''r'')), (u ''detailed_analysis'', PyStr (u ''d'')),
       (u ''affected_subsystem'', PyStr (u ''mm'')), (u ''probable_trigger'', PyStr (u ''t'')),
       (u ''suggested_fixes'', PyList []), (u ''related_issues'', PyList []),
       (u ''annotated_trace'', PyList [])]"
  define lib where "lib =
      \<lparr>messages_create = (\<lambda>args. Inr [reply]),
       json_loads = (\<lambda>s. if s = reply then Inr (PyDict d)
          else Inl (JSONDecodeError (u ''Expecting value: line 1 column 1 (char 0)''))),
       lax_int = (\<lambda>v. Inl int_parsing)\<rparr>"
  define req :: AnalyzeRequest where
    "req = \<lparr>log_text = u ''BUG'', kernel_version = [], distro = [], additional_context = []\<rparr>"
  have t: "strip_fences reply = Inr reply"
    by (rule strip_fences_unfenced) (simp_all add: reply_def u_def isspace_def)
  have l: "py_strip (log_text req) \<noteq> []"
    by (simp add: req_def py_strip_def py_lstrip_def py_rstrip_def u_def isspace_def)
  have n: "u ''confidence'' \<in> set AnalysisReport_fields"
    by (simp add: AnalysisReport_fields_def)
  have m: "map_of d (u ''confidence'') = None"
    by (simp add: d_def u_def)
  have v: "AnalysisReport_init (lax_int lib) (PyDict d) =
      Inl (ValidationError [([Field (u ''confidence'')], missing)])"
    by (simp add: AnalysisReport_init_def AnalysisReport_validator_def required_def at_loc_def
        str_validator_def list_validator_def d_def u_def)
  from missing_field_rejected
    [of "u ''confidence''" d req lib "u ''You are a senior Linux kernel engineer''" reply "[]" reply]
    n m l t
  obtain es where "AnalysisReport_init (lax_int lib) (PyDict d) = Inl (ValidationError es)"
    and "analyze_crash lib (u ''You are a senior Linux kernel engineer'') req =
      (Inl \<lparr>status_code = 500,
            detail = Text_then_str (u ''Analysis failed: '') (ValidationError es)\<rparr>,
       [call_args (u ''You are a senior Linux kernel engineer'') req])"
    by (auto simp: lib_def)
  with v have "analyze_crash lib (u ''You are a senior Linux kernel engineer'') req =
      (Inl \<lparr>status_code = 500,
            detail = Text_then_str (u ''Analysis failed: '')
              (ValidationError [([Field (u ''confidence'')], missing)])\<rparr>,
       [call_args (u ''You are a senior Linux kernel engineer'') req])"
    by simp
  then show ?thesis
    unfolding lib_def reply_def d_def req_def by simp
qed

lemmas eval_defs = AnalysisReport_init_def AnalysisReport_validator_def required_def with_default_def
  at_loc_def str_validator_def int_validator_def list_validator_def RelatedIssue_validator_def
  TraceFrame_validator_def u_def

text \<open>
  C10. A key of the parsed document that is no field of \<open>AnalysisReport\<close> plays no part
  in the construction of the report: the outcome is that of the document without such
  keys. So when the document without its unknown keys validates into a report, the whole
  document validates into the same report, which has the declared fields only; an unknown
  key is never a validation failure.
\<close>

theorem extra_fields_ignored:
  "AnalysisReport_init lax (PyDict d) =
     AnalysisReport_init lax (PyDict (filter (\<lambda>(k, v). k \<in> set AnalysisReport_fields) d)) \<and>
   (AnalysisReport_init lax (PyDict (filter (\<lambda>(k, v). k \<in> set AnalysisReport_fields) d)) = Inr r \<longrightarrow>
      AnalysisReport_init lax (PyDict d) = Inr r)"
proof -
  have "AnalysisReport_validator lax (filter (\<lambda>(k, v). k \<in> set AnalysisReport_fields) d) =
      AnalysisReport_validator lax d"
    by (rule AnalysisReport_validator_cong) (simp add: map_of_filter_keys)
  then show ?thesis
    by (simp add: AnalysisReport_init_def)
qed

theorem extra_fields_witness:
  "AnalysisReport_init (\<lambda>v. Inl int_parsing)
     (PyDict
       [(u ''model'', PyStr (u ''x'')),
        (u ''crash_type'', PyStr (u ''Oops'')), (u ''severity'', PyStr (u ''high'')),
        (u ''confidence'', PyInt 85), (u ''root_cause'', PyStr (u ''r'')),
        (u ''notes'', PyList [PyInt 1]),
        (u ''detailed_analysis'', PyStr (u ''d'')), (u ''affected_subsystem'', PyStr (u ''mm'')),
        (u ''probable_trigger'', PyStr (u ''t'')), (u ''suggested_fixes'', PyList [PyStr (u ''f'')]),
        (u ''related_issues'', PyList [PyDict [(u ''id'', PyStr (u ''CVE-1'')), (u ''title'', PyStr (u ''c'')), (u ''cvss'', PyInt 7)]]),
        (u ''annotated_trace'', PyList [PyDict [(u ''func'', PyStr (u ''kfree'')), (u ''note'', PyStr (u ''n''))]]),
        (u ''confidence_pct'', PyNone)]) =
   Inr \<lparr>crash_type = u ''Oops'', severity = u ''high'', confidence = 85, root_cause = u ''r'',
        detailed_analysis = u ''d'', affected_subsystem = u ''mm'', probable_trigger = u ''t'',
        suggested_fixes = [u ''f''],
        related_issues = [\<lparr>id' = u ''CVE-1'', title = u ''c'', url = u ''#''\<rparr>],
        annotated_trace = [\<lparr>func = u ''kfree'', note' = u ''n''\<rparr>]\<rparr>"
proof -
  have "AnalysisReport_init (\<lambda>v. Inl int_parsing)
     (PyDict (filter (\<lambda>(k, v). k \<in> set AnalysisReport_fields)
       [(u ''model'', PyStr (u ''x'')),
        (u ''crash_type'', PyStr (u ''Oops'')), (u ''severity'', PyStr (u ''high'')),
        (u ''confidence'', PyInt 85), (u ''root_cause'', PyStr (u ''r'')),
        (u ''notes'', PyList [PyInt 1]),
        (u ''detailed_analysis'', PyStr (u ''d'')), (u ''affected_subsystem'', PyStr (u ''mm'')),
        (u ''probable_trigger'', PyStr (u ''t'')), (u ''suggested_fixes'', PyList [PyStr (u ''f'')]),
        (u ''related_issues'', PyList [PyDict [(u ''id'', PyStr (u ''CVE-1'')), (u ''title'', PyStr (u ''c'')), (u ''cvss'', PyInt 7)]]),
        (u ''annotated_trace'', PyList [PyDict [(u ''func'', PyStr (u ''kfree'')), (u ''note'', PyStr (u ''n''))]]),
        (u ''confidence_pct'', PyNone)])) =
   Inr \<lparr>crash_type = u ''Oops'', severity = u ''high'', confidence = 85, root_cause = u ''r'',
        detailed_analysis = u ''d'', affected_subsystem = u ''mm'', probable_trigger = u ''t'',
        suggested_fixes = [u ''f''],
        related_issues = [\<lparr>id' = u ''CVE-1'', title = u ''c'', url = u ''#''\<rparr>],
        annotated_trace = [\<lparr>func = u ''kfree'', note' = u ''n''\<rparr>]\<rparr>"
    by (simp add: eval_defs AnalysisReport_fields_def)
  then show ?thesis
    using extra_fields_ignored
      [of "\<lambda>v. Inl int_parsing"
        "[(u ''model'', PyStr (u ''x'')),
        (u ''crash_type'', PyStr (u ''Oops'')), (u ''severity'', PyStr (u ''high'')),
        (u ''confidence'', PyInt 85), (u ''root_cause'', PyStr (u ''r'')),
        (u ''notes'', PyList [PyInt 1]),
        (u ''detailed_analysis'', PyStr (u ''d'')), (u ''affected_subsystem'', PyStr (u ''mm'')),
        (u ''probable_trigger'', PyStr (u ''t'')), (u ''suggested_fixes'', PyList [PyStr (u ''f'')]),
        (u ''related_issues'', PyList [PyDict [(u ''id'', PyStr (u ''CVE-1'')), (u ''title'', PyStr (u ''c'')), (u ''cvss'', PyInt 7)]]),
        (u ''annotated_trace'', PyList [PyDict [(u ''func'', PyStr (u ''kfree'')), (u ''note'', PyStr (u ''n''))]]),
        (u ''confidence_pct'', PyNone)]"]
    by simp
qed

lemma field_names_neq:
  "u ''severity'' \<noteq> u ''crash_type''"
  "u ''confidence'' \<noteq> u ''crash_type''"
  "u ''root_cause'' \<noteq> u ''crash_type''"
  "u ''detailed_analysis'' \<noteq> u ''crash_type''"
  "u ''affected_subsystem'' \<noteq> u ''crash_type''"
  "u ''probable_trigger'' \<noteq> u ''crash_type''"
  "u ''suggested_fixes'' \<noteq> u ''crash_type''"
  "u ''related_issues'' \<noteq> u ''crash_type''"
  "u ''annotated_trace'' \<noteq> u ''crash_type''"
  "u ''crash_type'' \<noteq> u ''severity''"
  "u ''confidence'' \<noteq> u ''severity''"
  "u ''root_cause'' \<noteq> u ''severity''"
  "u ''detailed_analysis'' \<noteq> u ''severity''"
  "u ''affected_subsystem'' \<noteq> u ''severity''"
  "u ''probable_trigger'' \<noteq> u ''severity''"
  "u ''suggested_fixes'' \<noteq> u ''severity''"
  "u ''related_issues'' \<noteq> u ''severity''"
  "u ''annotated_trace'' \<noteq> u ''severity''"
  "u ''crash_type'' \<noteq> u ''confidence''"
  "u ''severity'' \<noteq> u ''confidence''"
  "u ''root_cause'' \<noteq> u ''confidence''"
  "u ''detailed_analysis'' \<noteq> u ''confidence''"
  "u ''affected_subsystem'' \<noteq> u ''confidence''"
  "u ''probable_trigger'' \<noteq> u ''confidence''"
  "u ''suggested_fixes'' \<noteq> u ''confidence''"
  "u ''related_issues'' \<noteq> u ''confidence''"
  "u ''annotated_trace'' \<noteq> u ''confidence''"
  by (simp_all add: u_def)


lemma required_update2_other:
  "name \<noteq> k \<Longrightarrow> name \<noteq> k' \<Longrightarrow>
   required (AList.update k v (AList.update k' v' d)) name f = required d name f"
  by (simp add: required_update_other)

text \<open>
  C8. Take any document that validates, and put any two strings in place of its
  \<open>crash_type\<close> and \<open>severity\<close>, inside or outside the values the system prompt
  lists: the document still validates, and the report is the same with these two
  strings, unchanged, in the two fields. No set of values is enforced for them.
\<close>

theorem enum_fields_unchecked:
  assumes "AnalysisReport_init lax (PyDict d) = Inr r"
  shows "AnalysisReport_init lax
           (PyDict (AList.update (u ''crash_type'') (PyStr ct)
                     (AList.update (u ''severity'') (PyStr sv) d))) =
         Inr (r\<lparr>crash_type := ct, severity := sv\<rparr>)"
proof -
  define d' where "d' = AList.update (u ''crash_type'') (PyStr ct)
      (AList.update (u ''severity'') (PyStr sv) d)"
  from assms have "AnalysisReport_validator lax d = Inr r"
    by (simp add: AnalysisReport_init_Inr_iff)
  then have f: "required d (u ''confidence'') (int_validator lax) = Inr (confidence r)"
    "required d (u ''root_cause'') str_validator = Inr (root_cause r)"
    "required d (u ''detailed_analysis'') str_validator = Inr (detailed_analysis r)"
    "required d (u ''affected_subsystem'') str_validator = Inr (affected_subsystem r)"
    "required d (u ''probable_trigger'') str_validator = Inr (probable_trigger r)"
    "required d (u ''suggested_fixes'') (list_validator str_validator) = Inr (suggested_fixes r)"
    "required d (u ''related_issues'') (list_validator RelatedIssue_validator) = Inr (related_issues r)"
    "required d (u ''annotated_trace'') (list_validator TraceFrame_validator) = Inr (annotated_trace r)"
    unfolding AnalysisReport_validator_Inr_iff by blast+
  have c: "required d' (u ''crash_type'') str_validator = Inr ct"
    unfolding d'_def by (simp add: required_update_same at_loc_def str_validator_def)
  have "required d' (u ''severity'') str_validator =
      required (AList.update (u ''severity'') (PyStr sv) d) (u ''severity'') str_validator"
    unfolding d'_def by (rule required_update_other) (rule field_names_neq)
  then have s: "required d' (u ''severity'') str_validator = Inr sv"
    by (simp add: required_update_same at_loc_def str_validator_def)
  have o: "required d' name g = required d name g"
    if "name \<noteq> u ''crash_type''" and "name \<noteq> u ''severity''" for name g
    unfolding d'_def using that by (rule required_update2_other)
  have "AnalysisReport_validator lax d' = Inr (r\<lparr>crash_type := ct, severity := sv\<rparr>)"
    unfolding AnalysisReport_validator_Inr_iff
    by (simp add: c s f o field_names_neq)
  then show ?thesis
    unfolding d'_def by (simp add: AnalysisReport_init_Inr_iff)
qed

theorem enum_fields_witness:
  "AnalysisReport_init (\<lambda>v. Inl int_parsing)
     (PyDict (AList.update (u ''crash_type'') (PyStr (u ''gremlins''))
       (AList.update (u ''severity'') (PyStr (u ''apocalyptic''))
         [(u ''crash_type'', PyStr (u ''Oops'')), (u ''severity'', PyStr (u ''high'')),
          (u ''confidence'', PyInt 85), (u ''root_cause'', PyStr (u ''r'')),
          (u ''detailed_analysis'', PyStr (u ''d'')), (u ''affected_subsystem'', PyStr (u ''mm'')),
          (u ''probable_trigger'', PyStr (u ''t'')), (u ''suggested_fixes'', PyList []),
          (u ''related_issues'', PyList []), (u ''annotated_trace'', PyList [])]))) =
   Inr \<lparr>crash_type = u ''gremlins'', severity = u ''apocalyptic'', confidence = 85,
        root_cause = u ''r'', detailed_analysis = u ''d'', affected_subsystem = u ''mm'',
        probable_trigger = u ''t'', suggested_fixes = [], related_issues = [],
        annotated_trace = []\<rparr>"
proof -
  have "AnalysisReport_init (\<lambda>v. Inl int_parsing)
     (PyDict
         [(u ''crash_type'', PyStr (u ''Oops'')), (u ''severity'', PyStr (u ''high'')),
          (u ''confidence'', PyInt 85), (u ''root_cause'', PyStr (u ''r'')),
          (u ''detailed_analysis'', PyStr (u ''d'')), (u ''affected_subsystem'', PyStr (u ''mm'')),
          (u ''probable_trigger'', PyStr (u ''t'')), (u ''suggested_fixes'', PyList []),
          (u ''related_issues'', PyList []), (u ''annotated_trace'', PyList [])]) =
   Inr \<lparr>crash_type = u ''Oops'', severity = u ''high'', confidence = 85,
        root_cause = u ''r'', detailed_analysis = u ''d'', affected_subsystem = u ''mm'',
        probable_trigger = u ''t'', suggested_fixes = [], related_issues = [],
        annotated_trace = []\<rparr>"
    by (simp add: eval_defs)
  from enum_fields_unchecked [OF this, of "u ''gremlins''" "u ''apocalyptic''"]
  show ?thesis
    by simp
qed

text \<open>
  C1, as amended. A \<open>confidence\<close> of 150 is accepted: the field is declared \<open>int\<close>
  without bounds, and the report holds 150.
\<close>

theorem confidence_out_of_range_accepted:
  "AnalysisReport_init (\<lambda>v. Inl int_parsing)
     (PyDict
         [(u ''crash_type'', PyStr (u ''Oops'')), (u ''severity'', PyStr (u ''high'')),
          (u ''confidence'', PyInt 150), (u ''root_cause'', PyStr (u ''r'')),
          (u ''detailed_analysis'', PyStr (u ''d'')), (u ''affected_subsystem'', PyStr (u ''mm'')),
          (u ''probable_trigger'', PyStr (u ''t'')), (u ''suggested_fixes'', PyList []),
          (u ''related_issues'', PyList []), (u ''annotated_trace'', PyList [])]) =
   Inr \<lparr>crash_type = u ''Oops'', severity = u ''high'', confidence = 150,
        root_cause = u ''r'', detailed_analysis = u ''d'', affected_subsystem = u ''mm'',
        probable_trigger = u ''t'', suggested_fixes = [], related_issues = [],
        annotated_trace = []\<rparr>"
  by (simp add: eval_defs)

lemma confidence_error:
  assumes "map_of d (u ''confidence'') = Some v" and "int_validator lax v = Inl [([], t)]"
  shows "\<exists>es. AnalysisReport_init lax (PyDict d) = Inl (ValidationError es) \<and>
           ([Field (u ''confidence'')], t) \<in> set es"
proof -
  define e where "e = ([Field (u ''confidence'')], t)"
  have r: "required d (u ''confidence'') (int_validator lax) = Inl [e]"
    using assms by (simp add: required_def at_loc_def e_def)
  have "\<exists>es. AnalysisReport_validator lax d = Inl es \<and> e \<in> set es"
  proof (rule errors_Inl)
    show "e \<in> (case AnalysisReport_validator lax d of Inl es \<Rightarrow> set es | Inr y \<Rightarrow> {})"
      unfolding AnalysisReport_validator_def errors_ap r by simp
  qed
  then show ?thesis
    unfolding e_def by (elim exE conjE) (simp add: AnalysisReport_init_def)
qed

text \<open>
  C1. Whatever integer \<open>i\<close> is put in place of the \<open>confidence\<close> of a document that
  validates, in or out of the range 0 to 100, the document validates and the report
  holds \<open>i\<close> itself: no range is checked and no value is clamped. A \<open>confidence\<close> that
  is \<open>null\<close>, a list or an object fails validation, with an error of kind \<open>int_type\<close>
  at the field; one that is a string or a float fails whenever the library's lax
  parsing refuses it, with the kind of error the library gives, at the field.
\<close>

theorem confidence_validation:
  "(AnalysisReport_init lax (PyDict d) = Inr r \<longrightarrow>
      AnalysisReport_init lax (PyDict (AList.update (u ''confidence'') (PyInt i) d)) =
        Inr (r\<lparr>confidence := i\<rparr>)) \<and>
   (map_of d (u ''confidence'') = Some v \<and> (v = PyNone \<or> v = PyList xs \<or> v = PyDict kv) \<longrightarrow>
      (\<exists>es. AnalysisReport_init lax (PyDict d) = Inl (ValidationError es) \<and>
            ([Field (u ''confidence'')], int_type) \<in> set es)) \<and>
   (map_of d (u ''confidence'') = Some v \<and> (v = PyStr s \<or> v = PyFloat f) \<and> lax v = Inl t \<longrightarrow>
      (\<exists>es. AnalysisReport_init lax (PyDict d) = Inl (ValidationError es) \<and>
            ([Field (u ''confidence'')], t) \<in> set es))"
proof (intro conjI impI)
  assume "AnalysisReport_init lax (PyDict d) = Inr r"
  then have "AnalysisReport_validator lax d = Inr r"
    by (simp add: AnalysisReport_init_Inr_iff)
  then have f: "required d (u ''crash_type'') str_validator = Inr (crash_type r)"
    "required d (u ''severity'') str_validator = Inr (severity r)"
    "required d (u ''root_cause'') str_validator = Inr (root_cause r)"
    "required d (u ''detailed_analysis'') str_validator = Inr (detailed_analysis r)"
    "required d (u ''affected_subsystem'') str_validator = Inr (affected_subsystem r)"
    "required d (u ''probable_trigger'') str_validator = Inr (probable_trigger r)"
    "required d (u ''suggested_fixes'') (list_validator str_validator) = Inr (suggested_fixes r)"
    "required d (u ''related_issues'') (list_validator RelatedIssue_validator) = Inr (related_issues r)"
    "required d (u ''annotated_trace'') (list_validator TraceFrame_validator) = Inr (annotated_trace r)"
    unfolding AnalysisReport_validator_Inr_iff by blast+
  have c: "required (AList.update (u ''confidence'') (PyInt i) d) (u ''confidence'')
      (int_validator lax) = Inr i"
    by (simp add: required_update_same at_loc_def int_validator_def)
  have "AnalysisReport_validator lax (AList.update (u ''confidence'') (PyInt i) d) =
      Inr (r\<lparr>confidence := i\<rparr>)"
    unfolding AnalysisReport_validator_Inr_iff
    by (simp add: c f required_update_other field_names_neq)
  then show "AnalysisReport_init lax (PyDict (AList.update (u ''confidence'') (PyInt i) d)) =
      Inr (r\<lparr>confidence := i\<rparr>)"
    by (simp add: AnalysisReport_init_Inr_iff)
next
  assume a: "map_of d (u ''confidence'') = Some v \<and> (v = PyNone \<or> v = PyList xs \<or> v = PyDict kv)"
  then have m: "map_of d (u ''confidence'') = Some v"
    by simp
  from a have "int_validator lax v = Inl [([], int_type)]"
    by (auto simp: int_validator_def)
  with m show "\<exists>es. AnalysisReport_init lax (PyDict d) = Inl (ValidationError es) \<and>
      ([Field (u ''confidence'')], int_type) \<in> set es"
    by (rule confidence_error)
next
  assume a: "map_of d (u ''confidence'') = Some v \<and> (v = PyStr s \<or> v = PyFloat f) \<and> lax v = Inl t"
  then have m: "map_of d (u ''confidence'') = Some v"
    by simp
  from a have "int_validator lax v = Inl [([], t)]"
    by (auto simp: int_validator_def)
  with m show "\<exists>es. AnalysisReport_init lax (PyDict d) = Inl (ValidationError es) \<and>
      ([Field (u ''confidence'')], t) \<in> set es"
    by (rule confidence_error)
qed

theorem confidence_validation_witness:
  "AnalysisReport_init (\<lambda>v. Inl int_parsing)
     (PyDict (AList.update (u ''confidence'') (PyInt (- 7))
       [(u ''crash_type'', PyStr (u ''Oops'')), (u ''severity'', PyStr (u ''high'')),
          (u ''confidence'', PyInt 85), (u ''root_cause'', PyStr (u ''r'')),
          (u ''detailed_analysis'', PyStr (u ''d'')), (u ''affected_subsystem'', PyStr (u ''mm'')),
          (u ''probable_trigger'', PyStr (u ''t'')), (u ''suggested_fixes'', PyList []),
          (u ''related_issues'', PyList []), (u ''annotated_trace'', PyList [])])) =
   Inr \<lparr>crash_type = u ''Oops'', severity = u ''high'', confidence = - 7,
        root_cause = u ''r'', detailed_analysis = u ''d'', affected_subsystem = u ''mm'',
        probable_trigger = u ''t'', suggested_fixes = [], related_issues = [],
        annotated_trace = []\<rparr> \<and>
   AnalysisReport_init (\<lambda>v. Inl int_parsing)
     (PyDict
       [(u ''crash_type'', PyStr (u ''Oops'')), (u ''severity'', PyStr (u ''high'')),
          (u ''confidence'', PyNone), (u ''root_cause'', PyStr (u ''r'')),
          (u ''detailed_analysis'', PyStr (u ''d'')), (u ''affected_subsystem'', PyStr (u ''mm'')),
          (u ''probable_trigger'', PyStr (u ''t'')), (u ''suggested_fixes'', PyList []),
          (u ''related_issues'', PyList []), (u ''annotated_trace'', PyList [])]) =
   Inl (ValidationError [([Field (u ''confidence'')], int_type)]) \<and>
   AnalysisReport_init (\<lambda>v. Inl int_parsing)
     (PyDict
       [(u ''crash_type'', PyStr (u ''Oops'')), (u ''severity'', PyStr (u ''high'')),
          (u ''confidence'', PyStr (u ''high'')), (u ''root_cause'', PyStr (u ''r'')),
          (u ''detailed_analysis'', PyStr (u ''d'')), (u ''affected_subsystem'', PyStr (u ''mm'')),
          (u ''probable_trigger'', PyStr (u ''t'')), (u ''suggested_fixes'', PyList []),
          (u ''related_issues'', PyList []), (u ''annotated_trace'', PyList [])]) =
   Inl (ValidationError [([Field (u ''confidence'')], int_parsing)])"
proof -
  have h: "AnalysisReport_init (\<lambda>v. Inl int_parsing)
     (PyDict
       [(u ''crash_type'', PyStr (u ''Oops'')), (u ''severity'', PyStr (u ''high'')),
          (u ''confidence'', PyInt 85), (u ''root_cause'', PyStr (u ''r'')),
          (u ''detailed_analysis'', PyStr (u ''d'')), (u ''affected_subsystem'', PyStr (u ''mm'')),
          (u ''probable_trigger'', PyStr (u ''t'')), (u ''suggested_fixes'', PyList []),
          (u ''related_issues'', PyList []), (u ''annotated_trace'', PyList [])]) =
   Inr \<lparr>crash_type = u ''Oops'', severity = u ''high'', confidence = 85,
        root_cause = u ''r'', detailed_analysis = u ''d'', affected_subsystem = u ''mm'',
        probable_trigger = u ''t'', suggested_fixes = [], related_issues = [],
        annotated_trace = []\<rparr>"
    by (simp add: eval_defs)
  have a: "AnalysisReport_init (\<lambda>v. Inl int_parsing)
     (PyDict
       [(u ''crash_type'', PyStr (u ''Oops'')), (u ''severity'', PyStr (u ''high'')),
          (u ''confidence'', PyNone), (u ''root_cause'', PyStr (u ''r'')),
          (u ''detailed_analysis'', PyStr (u ''d'')), (u ''affected_subsystem'', PyStr (u ''mm'')),
          (u ''probable_trigger'', PyStr (u ''t'')), (u ''suggested_fixes'', PyList []),
          (u ''related_issues'', PyList []), (u ''annotated_trace'', PyList [])]) =
   Inl (ValidationError [([Field (u ''confidence'')], int_type)])"
    by (simp add: eval_defs)
  have b: "AnalysisReport_init (\<lambda>v. Inl int_parsing)
     (PyDict
       [(u ''crash_type'', PyStr (u ''Oops'')), (u ''severity'', PyStr (u ''high'')),
          (u ''confidence'', PyStr (u ''high'')), (u ''root_cause'', PyStr (u ''r'')),
          (u ''detailed_analysis'', PyStr (u ''d'')), (u ''affected_subsystem'', PyStr (u ''mm'')),
          (u ''probable_trigger'', PyStr (u ''t'')), (u ''suggested_fixes'', PyList []),
          (u ''related_issues'', PyList []), (u ''annotated_trace'', PyList [])]) =
   Inl (ValidationError [([Field (u ''confidence'')], int_parsing)])"
    by (simp add: eval_defs)
  note c1 = confidence_validation
    [where lax = "\<lambda>v. Inl int_parsing" and i = "- 7" and r = "\<lparr>crash_type = u ''Oops'', severity = u ''high'', confidence = 85,
        root_cause = u ''r'', detailed_analysis = u ''d'', affected_subsystem = u ''mm'',
        probable_trigger = u ''t'', suggested_fixes = [], related_issues = [],
        annotated_trace = []\<rparr>"
      and d = "[(u ''crash_type'', PyStr (u ''Oops'')), (u ''severity'', PyStr (u ''high'')),
          (u ''confidence'', PyInt 85), (u ''root_cause'', PyStr (u ''r'')),
          (u ''detailed_analysis'', PyStr (u ''d'')), (u ''affected_subsystem'', PyStr (u ''mm'')),
          (u ''probable_trigger'', PyStr (u ''t'')), (u ''suggested_fixes'', PyList []),
          (u ''related_issues'', PyList []), (u ''annotated_trace'', PyList [])]"]
  note c2 = confidence_validation
    [where lax = "\<lambda>v. Inl int_parsing" and v = PyNone
      and d = "[(u ''crash_type'', PyStr (u ''Oops'')), (u ''severity'', PyStr (u ''high'')),
          (u ''confidence'', PyNone), (u ''root_cause'', PyStr (u ''r'')),
          (u ''detailed_analysis'', PyStr (u ''d'')), (u ''affected_subsystem'', PyStr (u ''mm'')),
          (u ''probable_trigger'', PyStr (u ''t'')), (u ''suggested_fixes'', PyList []),
          (u ''related_issues'', PyList []), (u ''annotated_trace'', PyList [])]"]
  note c3 = confidence_validation
    [where lax = "\<lambda>v. Inl int_parsing" and v = "PyStr (u ''high'')" and s = "u ''high''"
      and t = int_parsing
      and d = "[(u ''crash_type'', PyStr (u ''Oops'')), (u ''severity'', PyStr (u ''high'')),
          (u ''confidence'', PyStr (u ''high'')), (u ''root_cause'', PyStr (u ''r'')),
          (u ''detailed_analysis'', PyStr (u ''d'')), (u ''affected_subsystem'', PyStr (u ''mm'')),
          (u ''probable_trigger'', PyStr (u ''t'')), (u ''suggested_fixes'', PyList []),
          (u ''related_issues'', PyList []), (u ''annotated_trace'', PyList [])]"]
  from c1 c2 c3 h a b
  show ?thesis
    by simp
qed

end
